theory Spec2Isabelle
  imports Main
begin

section \<open>Python slicing of a sequence\<close>

text \<open>
  The notebook reads its corpus into the Python 2 byte string \<open>dataset_text\<close> and cuts
  windows out of it with the slice expression \<open>dataset_text[start_index:start_index + length]\<close>.
  A slice with integer bounds never raises: a negative bound counts from the end, and a bound
  outside the string is clamped to the nearest end.
\<close>

definition py_slice_index :: "nat \<Rightarrow> int \<Rightarrow> nat" where
  \<comment> \<open>the position a slice bound \<open>i\<close> denotes in a sequence of \<open>n\<close> items\<close>
  "py_slice_index n i =
     (let j = (if i < 0 then i + int n else i)
      in if j < 0 then 0 else if int n < j then n else nat j)"

definition py_slice :: "'a list \<Rightarrow> int \<Rightarrow> int \<Rightarrow> 'a list" where
  \<comment> \<open>\<open>xs[lo:hi]\<close>; the truncating subtraction makes the slice empty when \<open>hi\<close> lies before \<open>lo\<close>\<close>
  "py_slice xs lo hi =
     (let a = py_slice_index (length xs) lo; b = py_slice_index (length xs) hi
      in take (b - a) (drop a xs))"

section \<open>The windowing generator\<close>

text \<open>
  \<^verbatim>\<open>
  def generate_generator(length):
      def generate_text():
          start_index = 0
          while start_index < len(dataset_text) - length:
              yield dataset_text[start_index:start_index + length]
              start_index += 1
      return generate_text
  \<close>
  The corpus is a global of the notebook; here it is the parameter \<open>dataset_text\<close>. The
  parameter \<open>length\<close> of the source is called \<open>len\<close>, and it is a Python integer, so an
  \<open>int\<close>. The loop is run from a given \<open>start_index\<close> until the generator is exhausted, and
  each \<open>yield\<close> is recorded together with the \<open>start_index\<close> at which it happened.
\<close>

function generate_text_loop :: "string \<Rightarrow> int \<Rightarrow> int \<Rightarrow> (int \<times> string) list" where
  "generate_text_loop dataset_text len start_index =
     (if start_index < int (length dataset_text) - len
      then (start_index, py_slice dataset_text start_index (start_index + len))
             # generate_text_loop dataset_text len (start_index + 1)
      else [])"
  by pat_completeness auto
termination
  by (relation "measure (\<lambda>(dataset_text, len, start_index).
        nat (int (length dataset_text) - len - start_index))") auto

declare generate_text_loop.simps [simp del]

definition generate_text :: "string \<Rightarrow> int \<Rightarrow> string list" where
  \<comment> \<open>everything one generator yields, in order: the loop entered with \<open>start_index = 0\<close>\<close>
  "generate_text dataset_text len = map snd (generate_text_loop dataset_text len 0)"

definition generate_generator :: "string \<Rightarrow> int \<Rightarrow> (unit \<Rightarrow> string list)" where
  \<comment> \<open>the closure handed to the framework: each call makes a fresh generator\<close>
  "generate_generator dataset_text len = (\<lambda>_. generate_text dataset_text len)"

text \<open>
  The same loop as a relation between the \<open>start_index\<close> a generator is resumed at and the
  windows it yields from there until it is exhausted: one rule for leaving the loop, one for an
  iteration.
\<close>

inductive generate_text_run :: "string \<Rightarrow> int \<Rightarrow> int \<Rightarrow> string list \<Rightarrow> bool" where
  exhausted:
    "\<not> start_index < int (length dataset_text) - len \<Longrightarrow>
       generate_text_run dataset_text len start_index []"
| yield:
    "start_index < int (length dataset_text) - len \<Longrightarrow>
     generate_text_run dataset_text len (start_index + 1) ws \<Longrightarrow>
       generate_text_run dataset_text len start_index
         (py_slice dataset_text start_index (start_index + len) # ws)"

code_pred generate_text_run .

section \<open>One dataset per phase\<close>

text \<open>
  \<^verbatim>\<open>
  MAX_LENGTH = 32
  BATCH_SIZE = 2
  EPOCHS = 20
  datasets = [
      tf.data.Dataset.from_generator(generate_generator(length), tf.string)
      .map(lambda t: tf.decode_raw(t, tf.int8))
      .shuffle(buffer_size=1000, reshuffle_each_iteration=True)
      .repeat(EPOCHS)
      .batch(BATCH_SIZE)
      for length in range(1, MAX_LENGTH + 1)
  ]
  \<close>
  The dataset transformations belong to the framework. A dataset is therefore the term of
  framework calls that builds it, over the generator function \<open>'g\<close> it is made from.
\<close>

datatype 'g dataset =
    From_generator 'g
  | Map_decode_raw "'g dataset"
  | Shuffle nat bool "'g dataset"
  | Repeat nat "'g dataset"
  | Batch nat "'g dataset"

definition MAX_LENGTH :: int where
  "MAX_LENGTH = 32"

definition BATCH_SIZE :: nat where
  "BATCH_SIZE = 2"

definition EPOCHS :: nat where
  "EPOCHS = 20"

definition py_range :: "int \<Rightarrow> int \<Rightarrow> int list" where
  \<comment> \<open>\<open>range(a, b)\<close>: the integers from \<open>a\<close> up to, not including, \<open>b\<close>\<close>
  "py_range a b = [a .. b - 1]"

definition datasets :: "string \<Rightarrow> (unit \<Rightarrow> string list) dataset list" where
  "datasets dataset_text =
     map (\<lambda>len.
            Batch BATCH_SIZE
              (Repeat EPOCHS
                (Shuffle 1000 True
                  (Map_decode_raw
                    (From_generator (generate_generator dataset_text len))))))
       (py_range 1 (MAX_LENGTH + 1))"

text \<open>
  Of the framework calls the notebook chains, \<open>shuffle\<close> is the one that draws random numbers:
  \<open>from_generator\<close> hands on what the generator yields, the \<open>map\<close> call reinterprets the bytes of
  each string with \<open>tf.decode_raw\<close>, \<open>repeat\<close> and \<open>batch\<close> regroup what they are given. The
  next two functions read this off a dataset term: the dataset \<open>shuffle\<close> was called on, found
  from the last call inward, and how many calls of a random transformation a term holds.
\<close>

fun shuffle_input :: "'g dataset \<Rightarrow> 'g dataset option" where
  "shuffle_input (From_generator g) = None"
| "shuffle_input (Map_decode_raw d) = shuffle_input d"
| "shuffle_input (Shuffle buffer_size reshuffle d) = Some d"
| "shuffle_input (Repeat n d) = shuffle_input d"
| "shuffle_input (Batch n d) = shuffle_input d"

fun random_calls :: "'g dataset \<Rightarrow> nat" where
  "random_calls (From_generator g) = 0"
| "random_calls (Map_decode_raw d) = random_calls d"
| "random_calls (Shuffle buffer_size reshuffle d) = Suc (random_calls d)"
| "random_calls (Repeat n d) = random_calls d"
| "random_calls (Batch n d) = random_calls d"

section \<open>The loop as an enumeration of start offsets\<close>

lemma generate_text_loop_upto:
  "generate_text_loop dataset_text len start_index =
     map (\<lambda>s. (s, py_slice dataset_text s (s + len)))
       [start_index .. int (length dataset_text) - len - 1]"
proof (induction dataset_text len start_index rule: generate_text_loop.induct)
  case (1 dataset_text len start_index)
  show ?case
  proof (cases "start_index < int (length dataset_text) - len")
    case True
    then have "[start_index .. int (length dataset_text) - len - 1] =
        start_index # [start_index + 1 .. int (length dataset_text) - len - 1]"
      by (simp add: upto_rec1)
    with True "1.IH" show ?thesis
      by (subst generate_text_loop.simps) simp
  next
    case False
    then show ?thesis
      by (subst generate_text_loop.simps) simp
  qed
qed

lemma length_generate_text:
  "length (generate_text dataset_text len) = nat (int (length dataset_text) - len)"
  by (simp add: generate_text_def generate_text_loop_upto)

lemma py_slice_window:
  assumes "0 \<le> s" and "0 \<le> L" and "s + L \<le> int (length xs)"
  shows "py_slice xs s (s + L) = take (nat L) (drop (nat s) xs)"
proof -
  from assms have a: "py_slice_index (length xs) s = nat s"
    by (simp add: py_slice_index_def)
  from assms have b: "py_slice_index (length xs) (s + L) = nat s + nat L"
    by (simp add: py_slice_index_def nat_add_distrib)
  show ?thesis
    by (simp add: py_slice_def a b)
qed

lemma py_slice_piece: "\<exists>pre suf. xs = pre @ py_slice xs lo hi @ suf"
proof -
  define a where "a = py_slice_index (length xs) lo"
  define b where "b = py_slice_index (length xs) hi"
  have "drop a xs = take (b - a) (drop a xs) @ drop (b - a) (drop a xs)"
    by (simp only: append_take_drop_id)
  then have "xs = take a xs @ take (b - a) (drop a xs) @ drop (b - a) (drop a xs)"
    by (metis append_take_drop_id)
  then show ?thesis
    unfolding py_slice_def Let_def a_def b_def by blast
qed

lemma in_generate_text_loop:
  "(s, w) \<in> set (generate_text_loop dataset_text len 0) \<longleftrightarrow>
     0 \<le> s \<and> s < int (length dataset_text) - len \<and> w = py_slice dataset_text s (s + len)"
  by (auto simp add: generate_text_loop_upto)

lemma length_generate_text_loop:
  "length (generate_text_loop dataset_text len 0) = nat (int (length dataset_text) - len)"
  by (simp add: generate_text_loop_upto)

lemma nth_generate_text_loop:
  assumes "i < length (generate_text_loop dataset_text len 0)"
  shows "generate_text_loop dataset_text len 0 ! i =
           (int i, py_slice dataset_text (int i) (int i + len))"
proof -
  from assms have "int i \<le> int (length dataset_text) - len - 1"
    by (simp add: length_generate_text_loop)
  then have "[0 .. int (length dataset_text) - len - 1] ! i = int i"
    using nth_upto [of 0 i] by simp
  with assms show ?thesis
    by (simp add: generate_text_loop_upto)
qed

lemma in_generate_text:
  "w \<in> set (generate_text dataset_text len) \<longleftrightarrow>
     (\<exists>s. 0 \<le> s \<and> s < int (length dataset_text) - len \<and> w = py_slice dataset_text s (s + len))"
proof -
  have "w \<in> set (generate_text dataset_text len) \<longleftrightarrow>
          (\<exists>s. (s, w) \<in> set (generate_text_loop dataset_text len 0))"
    by (force simp add: generate_text_def)
  then show ?thesis
    by (simp only: in_generate_text_loop)
qed

lemma nth_generate_text:
  assumes "i < length (generate_text dataset_text len)"
  shows "generate_text dataset_text len ! i = py_slice dataset_text (int i) (int i + len)"
  using assms by (simp add: generate_text_def nth_generate_text_loop)

lemma generate_text_run_loop:
  "generate_text_run dataset_text len start_index
     (map snd (generate_text_loop dataset_text len start_index))"
proof (induction dataset_text len start_index rule: generate_text_loop.induct)
  case (1 dataset_text len start_index)
  show ?case
  proof (cases "start_index < int (length dataset_text) - len")
    case True
    with "1.IH" show ?thesis
      by (subst generate_text_loop.simps) (simp add: generate_text_run.yield)
  next
    case False
    then show ?thesis
      by (subst generate_text_loop.simps) (simp add: generate_text_run.exhausted)
  qed
qed

lemma generate_text_run_unique:
  "generate_text_run dataset_text len start_index ws \<Longrightarrow>
     ws = map snd (generate_text_loop dataset_text len start_index)"
proof (induction rule: generate_text_run.induct)
  case (exhausted start_index dataset_text len)
  then show ?case
    by (subst generate_text_loop.simps) simp
next
  case (yield start_index dataset_text len ws)
  then show ?case
    by (subst generate_text_loop.simps) simp
qed

lemma generate_text_run_iff:
  "generate_text_run dataset_text len start_index ws \<longleftrightarrow>
     ws = map snd (generate_text_loop dataset_text len start_index)"
  using generate_text_run_loop generate_text_run_unique by blast

section \<open>The list of datasets\<close>

lemma nth_py_range:
  assumes "a + int i < b"
  shows "py_range a b ! i = a + int i"
  using assms by (simp add: py_range_def)

lemma length_datasets: "length (datasets dataset_text) = 32"
  by (simp add: datasets_def py_range_def MAX_LENGTH_def)

lemma nth_datasets:
  assumes "1 \<le> k" and "int k \<le> MAX_LENGTH"
  shows "datasets dataset_text ! (k - 1) =
           Batch BATCH_SIZE
             (Repeat EPOCHS
               (Shuffle 1000 True
                 (Map_decode_raw
                   (From_generator (generate_generator dataset_text (int k))))))"
proof -
  from assms have "k - 1 < 32"
    by (simp add: MAX_LENGTH_def)
  then have lt: "k - 1 < length (py_range 1 (MAX_LENGTH + 1))"
    by (simp add: py_range_def MAX_LENGTH_def)
  from assms have "1 + int (k - 1) < MAX_LENGTH + 1"
    by (simp add: MAX_LENGTH_def)
  then have "py_range 1 (MAX_LENGTH + 1) ! (k - 1) = 1 + int (k - 1)"
    by (rule nth_py_range)
  with assms have "py_range 1 (MAX_LENGTH + 1) ! (k - 1) = int k"
    by simp
  with lt show ?thesis
    by (simp add: datasets_def)
qed

section \<open>Properties\<close>

text \<open>
  C1. For every window length \<open>L\<close> with \<open>1 \<le> L < len(dataset_text)\<close>, the generator returned by
  \<open>generate_generator(L)\<close> produces exactly \<open>len(dataset_text) - L\<close> windows before it is
  exhausted.
\<close>

theorem C1_window_count:
  assumes "1 \<le> L" and "L < int (length dataset_text)"
  shows "int (length (generate_generator dataset_text L ())) = int (length dataset_text) - L"
  using assms by (simp add: generate_generator_def length_generate_text)

theorem C1_window_count_witness:
  "(1::int) \<le> 2 \<and> (2::int) < int (length ''abcde'')
   \<and> generate_generator ''abcde'' 2 () = [''ab'', ''bc'', ''cd'']
   \<and> int (length (generate_generator ''abcde'' 2 ())) = int (length ''abcde'') - 2"
proof -
  have a: "(1::int) \<le> 2" and b: "(2::int) < int (length ''abcde'')"
    by simp_all
  have c: "generate_generator ''abcde'' 2 () = [''ab'', ''bc'', ''cd'']"
    by code_simp
  from a b c C1_window_count [OF a b] show ?thesis
    by blast
qed

text \<open>
  C2 claims that, for \<open>1 \<le> L \<le> len(dataset_text)\<close>, a window is yielded for every start offset
  \<open>s\<close> with \<open>s + L \<le> len(dataset_text)\<close>, the offset \<open>len(dataset_text) - L\<close> included. The loop
  is guarded by the strict comparison \<open>start_index < len(dataset_text) - length\<close>, so it is left
  while one full window remains: on the corpus \<open>abc\<close> with \<open>L = 1\<close> the offsets 0 and 1 are
  yielded, and offset 2, whose window \<open>c\<close> is a full window, is not.
\<close>

theorem C2_last_window_counterexample:
  "(1::int) \<le> 1 \<and> (1::int) \<le> int (length ''abc'') \<and> (2::int) + 1 \<le> int (length ''abc'')
   \<and> generate_text_loop ''abc'' 1 0 = [(0, ''a''), (1, ''b'')]
   \<and> (2::int) \<notin> fst ` set (generate_text_loop ''abc'' 1 0)
   \<and> py_slice ''abc'' 2 (2 + 1) \<notin> set (generate_generator ''abc'' 1 ())"
  by code_simp

text \<open>
  C2, as the loop has it. For every window length \<open>L\<close> with \<open>1 \<le> L \<le> len(dataset_text)\<close>, the
  generator yields the full window \<open>dataset_text[s:s + L]\<close> for every start offset \<open>s\<close> with
  \<open>0 \<le> s\<close> and \<open>s + L < len(dataset_text)\<close>, and for no other offset: every full-length window of
  the corpus is produced except the last one, which starts at offset \<open>len(dataset_text) - L\<close>.
\<close>

theorem C2_full_windows_but_last:
  assumes "1 \<le> L" and "L \<le> int (length dataset_text)"
  shows "(\<forall>s. 0 \<le> s \<and> s + L < int (length dataset_text) \<longrightarrow>
            (s, take (nat L) (drop (nat s) dataset_text))
              \<in> set (generate_text_loop dataset_text L 0))
         \<and> fst ` set (generate_text_loop dataset_text L 0)
             = {s. 0 \<le> s \<and> s + L < int (length dataset_text)}
         \<and> int (length dataset_text) - L \<notin> fst ` set (generate_text_loop dataset_text L 0)"
proof (intro conjI allI impI)
  fix s
  assume s: "0 \<le> s \<and> s + L < int (length dataset_text)"
  with assms have "py_slice dataset_text s (s + L) = take (nat L) (drop (nat s) dataset_text)"
    by (intro py_slice_window) simp_all
  with s show "(s, take (nat L) (drop (nat s) dataset_text))
                 \<in> set (generate_text_loop dataset_text L 0)"
    by (simp add: in_generate_text_loop)
next
  show "fst ` set (generate_text_loop dataset_text L 0)
          = {s. 0 \<le> s \<and> s + L < int (length dataset_text)}"
    by (auto simp add: generate_text_loop_upto image_image)
  then show "int (length dataset_text) - L \<notin> fst ` set (generate_text_loop dataset_text L 0)"
    by simp
qed

theorem C2_full_windows_but_last_witness:
  "(1::int) \<le> 2 \<and> (2::int) \<le> int (length ''abcde'')
   \<and> (0::int) \<le> 2 \<and> (2::int) + 2 < int (length ''abcde'')
   \<and> (2, ''cd'') \<in> set (generate_text_loop ''abcde'' 2 0)
   \<and> (3::int) \<notin> fst ` set (generate_text_loop ''abcde'' 2 0)"
proof -
  have a: "(1::int) \<le> 2" and b: "(2::int) \<le> int (length ''abcde'')"
    by simp_all
  have c: "(0::int) \<le> 2 \<and> (2::int) + 2 < int (length ''abcde'')"
    by simp
  from C2_full_windows_but_last [OF a b] c
  have "(2, take (nat 2) (drop (nat 2) ''abcde'')) \<in> set (generate_text_loop ''abcde'' 2 0)"
    and "int (length ''abcde'') - 2 \<notin> fst ` set (generate_text_loop ''abcde'' 2 0)"
    by blast+
  with a b c show ?thesis
    by simp
qed

text \<open>
  C3. For every window length \<open>L \<ge> 1\<close>, every string yielded by the generator returned by
  \<open>generate_generator(L)\<close> has length exactly \<open>L\<close> and is a contiguous substring of the corpus
  \<open>dataset_text\<close>.
\<close>

theorem C3_window_length_and_substring:
  assumes "1 \<le> L" and "w \<in> set (generate_generator dataset_text L ())"
  shows "int (length w) = L \<and> (\<exists>pre suf. dataset_text = pre @ w @ suf)"
proof -
  from assms(2) obtain s where s: "0 \<le> s" "s < int (length dataset_text) - L"
      and w: "w = py_slice dataset_text s (s + L)"
    by (auto simp add: generate_generator_def in_generate_text)
  from assms(1) s have "py_slice dataset_text s (s + L) = take (nat L) (drop (nat s) dataset_text)"
    by (intro py_slice_window) simp_all
  with assms(1) s w have "int (length w) = L"
    by simp
  moreover from w have "\<exists>pre suf. dataset_text = pre @ w @ suf"
    by (simp only: py_slice_piece)
  ultimately show ?thesis ..
qed

theorem C3_window_length_and_substring_witness:
  "(1::int) \<le> 2 \<and> ''bc'' \<in> set (generate_generator ''abcde'' 2 ())
   \<and> int (length ''bc'') = 2 \<and> (\<exists>pre suf. ''abcde'' = pre @ ''bc'' @ suf)"
proof -
  have a: "(1::int) \<le> 2"
    by simp
  have b: "''bc'' \<in> set (generate_generator ''abcde'' 2 ())"
    by code_simp
  from a b C3_window_length_and_substring [OF a b] show ?thesis
    by blast
qed

text \<open>
  C4. For every window length \<open>L \<ge> 1\<close>, any two consecutively yielded windows overlap by exactly
  \<open>L - 1\<close> characters: the earlier window with its first character removed equals the later
  window with its last character removed, and that common part has \<open>L - 1\<close> characters.
\<close>

theorem C4_consecutive_overlap:
  assumes "1 \<le> L" and "Suc i < length (generate_generator dataset_text L ())"
  shows "tl (generate_generator dataset_text L () ! i)
           = butlast (generate_generator dataset_text L () ! Suc i)
         \<and> int (length (tl (generate_generator dataset_text L () ! i))) = L - 1"
proof -
  from assms(2) have n: "int (Suc i) + L < int (length dataset_text)"
    by (simp add: generate_generator_def length_generate_text)
  from assms(2) have "generate_generator dataset_text L () ! i
      = py_slice dataset_text (int i) (int i + L)"
    by (simp add: generate_generator_def nth_generate_text)
  also from assms(1) n have "\<dots> = take (nat L) (drop (nat (int i)) dataset_text)"
    by (intro py_slice_window) simp_all
  finally have w0: "generate_generator dataset_text L () ! i
      = take (nat L) (drop i dataset_text)"
    by simp
  from assms(2) have "generate_generator dataset_text L () ! Suc i
      = py_slice dataset_text (int (Suc i)) (int (Suc i) + L)"
    by (simp only: generate_generator_def nth_generate_text)
  also from assms(1) n have "\<dots> = take (nat L) (drop (nat (int (Suc i))) dataset_text)"
    by (intro py_slice_window) simp_all
  finally have w1: "generate_generator dataset_text L () ! Suc i
      = take (nat L) (drop (Suc i) dataset_text)"
    by (simp only: nat_int)
  from assms(1) n have fits: "nat L \<le> length (drop (Suc i) dataset_text)"
    by simp
  have "tl (take (nat L) (drop i dataset_text)) = take (nat L - 1) (drop (Suc i) dataset_text)"
    by (simp add: tl_take tl_drop drop_Suc)
  moreover from fits
  have "butlast (take (nat L) (drop (Suc i) dataset_text))
          = take (nat L - 1) (drop (Suc i) dataset_text)"
    by (rule butlast_take)
  moreover from assms(1) fits
  have "int (length (take (nat L - 1) (drop (Suc i) dataset_text))) = L - 1"
    by simp
  ultimately show ?thesis
    by (simp only: w0 w1)
qed

theorem C4_consecutive_overlap_witness:
  "(1::int) \<le> 3 \<and> Suc 0 < length (generate_generator ''abcde'' 3 ())
   \<and> generate_generator ''abcde'' 3 () ! 0 = ''abc''
   \<and> generate_generator ''abcde'' 3 () ! Suc 0 = ''bcd''
   \<and> tl (generate_generator ''abcde'' 3 () ! 0)
       = butlast (generate_generator ''abcde'' 3 () ! Suc 0)
   \<and> int (length (tl (generate_generator ''abcde'' 3 () ! 0))) = 3 - 1"
proof -
  have a: "(1::int) \<le> 3"
    by simp
  have b: "Suc 0 < length (generate_generator ''abcde'' 3 ())"
    by code_simp
  have c: "generate_generator ''abcde'' 3 () ! 0 = ''abc''"
    and d: "generate_generator ''abcde'' 3 () ! Suc 0 = ''bcd''"
    by code_simp+
  from a b c d C4_consecutive_overlap [OF a b] show ?thesis
    by blast
qed

text \<open>
  C5. The invariant \<open>0 \<le> start_index < len(dataset_text) - length\<close> holds at every point where
  the generator yields a window, the yielded window being the slice taken at that
  \<open>start_index\<close>; from one yield to the next \<open>start_index\<close> grows by exactly one, and the first
  yield happens at \<open>start_index = 0\<close>.
\<close>

theorem C5_start_index_invariant:
  "(\<forall>(s, w) \<in> set (generate_text_loop dataset_text L 0).
       0 \<le> s \<and> s < int (length dataset_text) - L \<and> w = py_slice dataset_text s (s + L))
   \<and> (\<forall>i. Suc i < length (generate_text_loop dataset_text L 0) \<longrightarrow>
         fst (generate_text_loop dataset_text L 0 ! Suc i)
           = fst (generate_text_loop dataset_text L 0 ! i) + 1)
   \<and> (generate_text_loop dataset_text L 0 \<noteq> [] \<longrightarrow>
         fst (generate_text_loop dataset_text L 0 ! 0) = 0)"
proof (intro conjI allI impI)
  show "\<forall>(s, w) \<in> set (generate_text_loop dataset_text L 0).
       0 \<le> s \<and> s < int (length dataset_text) - L \<and> w = py_slice dataset_text s (s + L)"
    using in_generate_text_loop by blast
next
  fix i
  assume "Suc i < length (generate_text_loop dataset_text L 0)"
  then show "fst (generate_text_loop dataset_text L 0 ! Suc i)
           = fst (generate_text_loop dataset_text L 0 ! i) + 1"
    by (simp add: nth_generate_text_loop)
next
  assume "generate_text_loop dataset_text L 0 \<noteq> []"
  then show "fst (generate_text_loop dataset_text L 0 ! 0) = 0"
    by (simp add: nth_generate_text_loop)
qed

theorem C5_start_index_invariant_witness:
  "generate_text_loop ''abcde'' 2 0 = [(0, ''ab''), (1, ''bc''), (2, ''cd'')]
   \<and> (2, ''cd'') \<in> set (generate_text_loop ''abcde'' 2 0)
   \<and> (0::int) \<le> 2 \<and> (2::int) < int (length ''abcde'') - 2
   \<and> Suc 1 < length (generate_text_loop ''abcde'' 2 0)
   \<and> fst (generate_text_loop ''abcde'' 2 0 ! Suc 1) = fst (generate_text_loop ''abcde'' 2 0 ! 1) + 1
   \<and> generate_text_loop ''abcde'' 2 0 \<noteq> []
   \<and> fst (generate_text_loop ''abcde'' 2 0 ! 0) = 0"
proof -
  have a: "generate_text_loop ''abcde'' 2 0 = [(0, ''ab''), (1, ''bc''), (2, ''cd'')]"
    by code_simp
  then have b: "(2, ''cd'') \<in> set (generate_text_loop ''abcde'' 2 0)"
    and c: "Suc 1 < length (generate_text_loop ''abcde'' 2 0)"
    and d: "generate_text_loop ''abcde'' 2 0 \<noteq> []"
    by simp_all
  from C5_start_index_invariant [of "''abcde''" 2] b c d
  have "(0::int) \<le> 2 \<and> (2::int) < int (length ''abcde'') - 2"
    and "fst (generate_text_loop ''abcde'' 2 0 ! Suc 1)
           = fst (generate_text_loop ''abcde'' 2 0 ! 1) + 1"
    and "fst (generate_text_loop ''abcde'' 2 0 ! 0) = 0"
    by blast+
  with a b c d show ?thesis
    by blast
qed

text \<open>
  C6. Exactly one dataset is constructed per curriculum phase: \<open>datasets\<close> has \<open>MAX_LENGTH = 32\<close>
  entries, one for each window length from 1 to \<open>MAX_LENGTH\<close> in increasing order, and the
  \<open>k\<close>-th dataset (counted from 1) is the pipeline built on the generator function
  \<open>generate_generator(k)\<close>.
\<close>

theorem C6_one_dataset_per_phase:
  "MAX_LENGTH = 32
   \<and> int (length (datasets dataset_text)) = MAX_LENGTH
   \<and> (\<forall>k. 1 \<le> k \<and> int k \<le> MAX_LENGTH \<longrightarrow>
         datasets dataset_text ! (k - 1) =
           Batch BATCH_SIZE
             (Repeat EPOCHS
               (Shuffle 1000 True
                 (Map_decode_raw
                   (From_generator (generate_generator dataset_text (int k)))))))"
proof (intro conjI allI impI)
  show "MAX_LENGTH = 32"
    by (simp add: MAX_LENGTH_def)
  show "int (length (datasets dataset_text)) = MAX_LENGTH"
    by (simp add: length_datasets MAX_LENGTH_def)
next
  fix k :: nat
  assume k: "1 \<le> k \<and> int k \<le> MAX_LENGTH"
  then have "k - 1 < 32"
    by (simp add: MAX_LENGTH_def) arith
  then have lt: "k - 1 < length (py_range 1 (MAX_LENGTH + 1))"
    by (simp add: py_range_def MAX_LENGTH_def)
  from k have "1 + int (k - 1) < MAX_LENGTH + 1"
    by (simp add: MAX_LENGTH_def)
  then have "py_range 1 (MAX_LENGTH + 1) ! (k - 1) = 1 + int (k - 1)"
    by (rule nth_py_range)
  with k have "py_range 1 (MAX_LENGTH + 1) ! (k - 1) = int k"
    by simp
  with lt show "datasets dataset_text ! (k - 1) =
           Batch BATCH_SIZE
             (Repeat EPOCHS
               (Shuffle 1000 True
                 (Map_decode_raw
                   (From_generator (generate_generator dataset_text (int k))))))"
    by (simp add: datasets_def)
qed

theorem C6_one_dataset_per_phase_witness:
  "(1::nat) \<le> 32 \<and> int 32 \<le> MAX_LENGTH
   \<and> datasets ''abc'' ! (32 - 1) =
        Batch 2 (Repeat 20 (Shuffle 1000 True
          (Map_decode_raw (From_generator (generate_generator ''abc'' 32)))))"
proof -
  have a: "(1::nat) \<le> 32 \<and> int 32 \<le> MAX_LENGTH"
    by (simp add: MAX_LENGTH_def)
  with C6_one_dataset_per_phase [of "''abc''"]
  have "datasets ''abc'' ! (32 - 1) =
          Batch BATCH_SIZE (Repeat EPOCHS (Shuffle 1000 True
            (Map_decode_raw (From_generator (generate_generator ''abc'' (int 32))))))"
    by blast
  with a show ?thesis
    by (simp add: BATCH_SIZE_def EPOCHS_def)
qed

text \<open>
  C7. For every window length \<open>L\<close> and every finite corpus, the generator returned by
  \<open>generate_generator(L)\<close> terminates: it is exhausted after finitely many yields, at most
  \<open>len(dataset_text)\<close> of them, rather than producing an infinite stream. A window length is a
  number of characters, \<open>L \<ge> 0\<close>, and the bound is stated for these; the number of yields,
  \<open>max(0, len(dataset_text) - L)\<close>, is finite for every integer. That the loop ends on every
  input is the termination proof of \<open>generate_text_loop\<close>; the theorem counts the yields.
\<close>

theorem C7_finitely_many_yields:
  "length (generate_generator dataset_text L ()) = nat (int (length dataset_text) - L)
   \<and> (0 \<le> L \<longrightarrow> length (generate_generator dataset_text L ()) \<le> length dataset_text)"
proof -
  have n: "length (generate_generator dataset_text L ()) = nat (int (length dataset_text) - L)"
    by (simp add: generate_generator_def length_generate_text)
  have "nat (int (length dataset_text) - L) \<le> length dataset_text" if "0 \<le> L"
    using that by linarith
  with n show ?thesis
    by simp
qed

theorem C7_finitely_many_yields_witness:
  "(0::int) \<le> 2 \<and> length (generate_generator ''abcde'' 2 ()) = 3
   \<and> length (generate_generator ''abcde'' 2 ()) \<le> length ''abcde''"
proof -
  have a: "(0::int) \<le> 2"
    by simp
  from C7_finitely_many_yields [of "''abcde''" 2] a
  have "length (generate_generator ''abcde'' 2 ()) = nat (int (length ''abcde'') - 2)"
    and "length (generate_generator ''abcde'' 2 ()) \<le> length ''abcde''"
    by blast+
  with a show ?thesis
    by simp
qed

text \<open>
  C8. The windowing generator has no error branch of its own: for every integer \<open>length\<close>,
  including \<open>length \<le> 0\<close> and \<open>length \<ge> len(dataset_text)\<close>, running the generator returned by
  \<open>generate_generator(length)\<close> to exhaustion returns normally. It yields the slice
  \<open>dataset_text[s:s + length]\<close> for each \<open>s\<close> from 0 up to \<open>len(dataset_text) - length - 1\<close>,
  each of them a piece of the corpus however the bounds fall, and when
  \<open>len(dataset_text) - length \<le> 0\<close> it yields zero windows.
\<close>

theorem C8_total_on_every_integer_length:
  "generate_generator dataset_text L ()
     = map (\<lambda>s. py_slice dataset_text s (s + L)) [0 .. int (length dataset_text) - L - 1]
   \<and> (int (length dataset_text) - L \<le> 0 \<longrightarrow> generate_generator dataset_text L () = [])
   \<and> (\<forall>w \<in> set (generate_generator dataset_text L ()).
         \<exists>pre suf. dataset_text = pre @ w @ suf)"
proof (intro conjI impI ballI)
  show eq: "generate_generator dataset_text L ()
     = map (\<lambda>s. py_slice dataset_text s (s + L)) [0 .. int (length dataset_text) - L - 1]"
    by (simp add: generate_generator_def generate_text_def generate_text_loop_upto comp_def)
  show "generate_generator dataset_text L () = []"
    if "int (length dataset_text) - L \<le> 0"
    using that by (simp add: eq)
  show "\<exists>pre suf. dataset_text = pre @ w @ suf"
    if "w \<in> set (generate_generator dataset_text L ())" for w
  proof -
    from that obtain s where "w = py_slice dataset_text s (s + L)"
      by (auto simp add: eq)
    then show ?thesis
      by (simp only: py_slice_piece)
  qed
qed

theorem C8_total_on_every_integer_length_witness:
  "int (length ''abc'') - 3 \<le> 0 \<and> generate_generator ''abc'' 3 () = []
   \<and> int (length ''abc'') - 7 \<le> 0 \<and> generate_generator ''abc'' 7 () = []
   \<and> generate_generator ''abcde'' (- 2) () = [''abc'', ''bcd'', [], [], [], [], []]
   \<and> ''bcd'' \<in> set (generate_generator ''abcde'' (- 2) ())
   \<and> (\<exists>pre suf. ''abcde'' = pre @ ''bcd'' @ suf)"
proof -
  have a: "int (length ''abc'') - 3 \<le> 0" and b: "int (length ''abc'') - 7 \<le> 0"
    by simp_all
  have c: "generate_generator ''abcde'' (- 2) () = [''abc'', ''bcd'', [], [], [], [], []]"
    by code_simp
  then have d: "''bcd'' \<in> set (generate_generator ''abcde'' (- 2) ())"
    by simp
  from a C8_total_on_every_integer_length [of "''abc''" 3]
  have e: "generate_generator ''abc'' 3 () = []"
    by blast
  from b C8_total_on_every_integer_length [of "''abc''" 7]
  have f: "generate_generator ''abc'' 7 () = []"
    by blast
  from d C8_total_on_every_integer_length [of "''abcde''" "- 2"]
  have g: "\<exists>pre suf. ''abcde'' = pre @ ''bcd'' @ suf"
    by blast
  from a b c d e f g show ?thesis
    by blast
qed

text \<open>
  C9. For every window length \<open>L \<ge> 1\<close>, the final character of the corpus, at index
  \<open>len(dataset_text) - 1\<close>, is never contained in any yielded window: a window yielded at start
  offset \<open>s\<close> covers the indices \<open>s, \<dots>, s + L - 1\<close> with \<open>s + L - 1 \<le> len(dataset_text) - 2\<close>,
  so it is the same window cut out of the corpus without its last character.
\<close>

theorem C9_last_character_never_yielded:
  assumes "1 \<le> L" and "(s, w) \<in> set (generate_text_loop dataset_text L 0)"
  shows "0 \<le> s \<and> s + L - 1 \<le> int (length dataset_text) - 2
         \<and> w = take (nat L) (drop (nat s) dataset_text)
         \<and> w = take (nat L) (drop (nat s) (butlast dataset_text))"
proof -
  from assms(2) have s: "0 \<le> s" "s < int (length dataset_text) - L"
      and w: "w = py_slice dataset_text s (s + L)"
    by (simp_all add: in_generate_text_loop)
  from assms(1) s have "py_slice dataset_text s (s + L) = take (nat L) (drop (nat s) dataset_text)"
    by (intro py_slice_window) simp_all
  with w have w': "w = take (nat L) (drop (nat s) dataset_text)"
    by simp
  from assms(1) s have "nat L \<le> length dataset_text - 1 - nat s"
    by linarith
  then have "take (nat L) (drop (nat s) (butlast dataset_text))
      = take (nat L) (drop (nat s) dataset_text)"
    by (simp add: butlast_conv_take drop_take min_absorb1)
  with s w' show ?thesis
    by simp
qed

theorem C9_last_character_never_yielded_witness:
  "(1::int) \<le> 2 \<and> (2, ''cd'') \<in> set (generate_text_loop ''abcde'' 2 0)
   \<and> (2::int) + 2 - 1 \<le> int (length ''abcde'') - 2
   \<and> ''cd'' = take (nat 2) (drop (nat 2) (butlast ''abcde''))"
proof -
  have a: "(1::int) \<le> 2"
    by simp
  have b: "(2, ''cd'') \<in> set (generate_text_loop ''abcde'' 2 0)"
    by code_simp
  from a b C9_last_character_never_yielded [OF a b] show ?thesis
    by blast
qed

text \<open>
  C10. The windowing stage is deterministic: for a fixed corpus \<open>dataset_text\<close> and window
  length \<open>L\<close>, any two runs of the generator returned by \<open>generate_generator(L)\<close>, each started
  afresh at \<open>start_index = 0\<close>, yield the same sequence of windows in the same order, the one
  that \<open>generate_text\<close> computes; and no randomness enters before the framework's shuffle
  transformation: in the dataset of every phase \<open>k\<close>, \<open>shuffle\<close> is called on the \<open>decode_raw\<close> map
  over \<open>from_generator(generate_generator(k))\<close>, a term with no call of a random transformation,
  and the shuffle is the only such call of the whole pipeline.
\<close>

theorem C10_deterministic_before_shuffle:
  "(\<forall>ws1 ws2.
      generate_text_run dataset_text L 0 ws1 \<and> generate_text_run dataset_text L 0 ws2 \<longrightarrow>
        ws1 = ws2 \<and> ws1 = generate_generator dataset_text L ())
   \<and> (\<forall>k. 1 \<le> k \<and> int k \<le> MAX_LENGTH \<longrightarrow>
         shuffle_input (datasets dataset_text ! (k - 1))
           = Some (Map_decode_raw (From_generator (generate_generator dataset_text (int k))))
         \<and> map_option random_calls (shuffle_input (datasets dataset_text ! (k - 1))) = Some 0
         \<and> random_calls (datasets dataset_text ! (k - 1)) = 1)"
proof (intro conjI allI impI)
  fix ws1 ws2
  assume runs: "generate_text_run dataset_text L 0 ws1 \<and> generate_text_run dataset_text L 0 ws2"
  then show "ws1 = ws2"
    by (simp add: generate_text_run_iff)
  from runs show "ws1 = generate_generator dataset_text L ()"
    by (simp add: generate_text_run_iff generate_generator_def generate_text_def)
next
  fix k :: nat
  assume k: "1 \<le> k \<and> int k \<le> MAX_LENGTH"
  then have d: "datasets dataset_text ! (k - 1) =
           Batch BATCH_SIZE
             (Repeat EPOCHS
               (Shuffle 1000 True
                 (Map_decode_raw
                   (From_generator (generate_generator dataset_text (int k))))))"
    by (intro nth_datasets) simp_all
  show "shuffle_input (datasets dataset_text ! (k - 1))
           = Some (Map_decode_raw (From_generator (generate_generator dataset_text (int k))))"
    by (simp only: d shuffle_input.simps)
  show "map_option random_calls (shuffle_input (datasets dataset_text ! (k - 1))) = Some 0"
    by (simp only: d shuffle_input.simps random_calls.simps option.map)
  show "random_calls (datasets dataset_text ! (k - 1)) = 1"
    using d by simp
qed

theorem C10_deterministic_before_shuffle_witness:
  "generate_text_run ''abcde'' 2 0 [''ab'', ''bc'', ''cd'']
   \<and> generate_text_run ''abcde'' 2 0 (generate_text ''abcde'' 2)
   \<and> [''ab'', ''bc'', ''cd''] = generate_text ''abcde'' 2
   \<and> [''ab'', ''bc'', ''cd''] = generate_generator ''abcde'' 2 ()
   \<and> (1::nat) \<le> 2 \<and> int 2 \<le> MAX_LENGTH
   \<and> shuffle_input (datasets ''abcde'' ! (2 - 1))
       = Some (Map_decode_raw (From_generator (generate_generator ''abcde'' 2)))
   \<and> map_option random_calls (shuffle_input (datasets ''abcde'' ! (2 - 1))) = Some 0
   \<and> random_calls (datasets ''abcde'' ! (2 - 1)) = 1"
proof -
  have "[''ab'', ''bc'', ''cd''] = map snd (generate_text_loop ''abcde'' 2 0)"
    by code_simp
  then have a: "generate_text_run ''abcde'' 2 0 [''ab'', ''bc'', ''cd'']"
    by (simp only: generate_text_run_iff)
  have b: "generate_text_run ''abcde'' 2 0 (generate_text ''abcde'' 2)"
    by (simp only: generate_text_def generate_text_run_loop)
  have c: "(1::nat) \<le> 2 \<and> int 2 \<le> MAX_LENGTH"
    by (simp add: MAX_LENGTH_def)
  note inst = C10_deterministic_before_shuffle [of "''abcde''" 2]
  from inst a b have e: "[''ab'', ''bc'', ''cd''] = generate_text ''abcde'' 2"
    and f: "[''ab'', ''bc'', ''cd''] = generate_generator ''abcde'' 2 ()"
    by blast+
  from inst c
  have g: "shuffle_input (datasets ''abcde'' ! (2 - 1))
       = Some (Map_decode_raw (From_generator (generate_generator ''abcde'' (int 2))))"
    and h: "map_option random_calls (shuffle_input (datasets ''abcde'' ! (2 - 1))) = Some 0"
    and i: "random_calls (datasets ''abcde'' ! (2 - 1)) = 1"
    by blast+
  from g have g': "shuffle_input (datasets ''abcde'' ! (2 - 1))
       = Some (Map_decode_raw (From_generator (generate_generator ''abcde'' 2)))"
    by simp
  from a b c e f g' h i show ?thesis
    by blast
qed

end
